theory Spec2Isabelle
  imports Main
begin

section \<open>Keyring Tools: the bulk CSV processor and the command line\<close>

text \<open>
  A shallow embedding of \<^verbatim>\<open>src/v2.0/keyring_tools.py\<close> (\<^verbatim>\<open>process_bulk_csv\<close>,
  \<^verbatim>\<open>cli_handler\<close>, \<^verbatim>\<open>clear_clipboard_after\<close>) and of the three v1.0 scripts.
  What lies outside the repository is taken as input: the rows that \<^verbatim>\<open>csv.reader\<close>
  yields, the three operations of the \<^verbatim>\<open>keyring\<close> library, and the arguments that
  \<^verbatim>\<open>argparse\<close> hands over.
\<close>

subsection \<open>Python strings\<close>

text \<open>
  A Python \<^verbatim>\<open>str\<close> is a sequence of Unicode code points, and \<^verbatim>\<open>len\<close> counts code
  points; the messages of the program contain U+2264. So a string is a list of code
  points, and \<open>asc\<close> reads an ASCII literal.
\<close>

type_synonym pystr = "nat list"

definition asc :: "string \<Rightarrow> pystr" where
  "asc s = map of_char s"

text \<open>
  \<^verbatim>\<open>str.isspace\<close> of one code point: the code points CPython treats as whitespace.
\<close>

definition isspace :: "nat \<Rightarrow> bool" where
  "isspace c \<longleftrightarrow>
     (9 \<le> c \<and> c \<le> 13) \<or> (28 \<le> c \<and> c \<le> 32) \<or> c = 133 \<or> c = 160 \<or> c = 5760 \<or>
     (8192 \<le> c \<and> c \<le> 8202) \<or> c = 8232 \<or> c = 8233 \<or> c = 8239 \<or> c = 8287 \<or> c = 12288"

text \<open>\<^verbatim>\<open>s.strip()\<close>: leading and trailing whitespace removed.\<close>

definition strip :: "pystr \<Rightarrow> pystr" where
  "strip s = rev (dropWhile isspace (rev (dropWhile isspace s)))"

text \<open>
  \<^verbatim>\<open>s.lower()\<close>. The mapping is exact for the code points below 256: the letters A to Z
  and the capital letters of Latin-1 (192 to 222 without the multiplication sign 215)
  move up by 32. Above 255 Python follows the Unicode tables, which are not reproduced:
  such code points are left as they are. None of them lowercases to a letter of
  \<^verbatim>\<open>set\<close>, \<^verbatim>\<open>get\<close> or \<^verbatim>\<open>del\<close>, so only the text echoed by
  \<^verbatim>\<open>Invalid function\<close> can differ there.
\<close>

definition lower_cp :: "nat \<Rightarrow> nat" where
  "lower_cp c =
     (if 65 \<le> c \<and> c \<le> 90 then c + 32
      else if 192 \<le> c \<and> c \<le> 222 \<and> c \<noteq> 215 then c + 32
      else c)"

definition lower :: "pystr \<Rightarrow> pystr" where
  "lower s = map lower_cp s"

subsection \<open>Exceptions\<close>

text \<open>
  The exception classes the code raises, catches or names. \<open>PasswordDeleteError\<close> and
  \<open>PasswordSetError\<close> are subclasses of \<open>KeyringError\<close> in the library; the code
  only ever tests for \<open>PasswordDeleteError\<close>, \<open>KeyringError\<close> and \<open>Exception\<close>.
  Each carries its message, which \<^verbatim>\<open>str(e)\<close> returns.
\<close>

datatype exn =
    ValueError pystr
  | AttributeError pystr
  | UnboundLocalError pystr
  | KeyError pystr
  | OSError pystr
  | PasswordDeleteError pystr
  | PasswordSetError pystr
  | KeyringError pystr
  | OtherException pystr

fun str_exn :: "exn \<Rightarrow> pystr" where
  "str_exn (ValueError m) = m"
| "str_exn (AttributeError m) = m"
| "str_exn (UnboundLocalError m) = m"
| "str_exn (KeyError m) = m"
| "str_exn (OSError m) = m"
| "str_exn (PasswordDeleteError m) = m"
| "str_exn (PasswordSetError m) = m"
| "str_exn (KeyringError m) = m"
| "str_exn (OtherException m) = m"

text \<open>\<^verbatim>\<open>isinstance(e, keyring.errors.KeyringError)\<close>.\<close>

fun is_KeyringError :: "exn \<Rightarrow> bool" where
  "is_KeyringError (PasswordDeleteError m) = True"
| "is_KeyringError (PasswordSetError m) = True"
| "is_KeyringError (KeyringError m) = True"
| "is_KeyringError e = False"

subsection \<open>Constants\<close>

definition MAX_SYSTEM_LENGTH :: nat where "MAX_SYSTEM_LENGTH = 254"
definition MAX_USERNAME_LENGTH :: nat where "MAX_USERNAME_LENGTH = 32"
definition MAX_PASSWORD_LENGTH :: nat where "MAX_PASSWORD_LENGTH = 400"

text \<open>\<^verbatim>\<open>os.path.basename(RESULTS_FILE)\<close>.\<close>

definition results_filename :: pystr where
  "results_filename = asc ''keyring_results.txt''"

subsection \<open>The keyring library and the world\<close>

text \<open>
  The \<^verbatim>\<open>keyring\<close> module is a parameter: three operations on a backend state
  \<open>'st\<close>, each of which returns or raises and leaves a backend state.
  \<^verbatim>\<open>get_password\<close> returns \<^verbatim>\<open>None\<close> or a string.
\<close>

record 'st keyring =
  set_password :: "'st \<Rightarrow> pystr \<Rightarrow> pystr \<Rightarrow> pystr \<Rightarrow> (exn + unit) \<times> 'st"
  get_password :: "'st \<Rightarrow> pystr \<Rightarrow> pystr \<Rightarrow> (exn + pystr option) \<times> 'st"
  delete_password :: "'st \<Rightarrow> pystr \<Rightarrow> pystr \<Rightarrow> (exn + unit) \<times> 'st"

text \<open>The calls made to the library, in order.\<close>

datatype call =
    SetPassword pystr pystr pystr
  | GetPassword pystr pystr
  | DeletePassword pystr pystr

text \<open>
  Everything the program acts on: the backend state, the trace of library calls, the
  results file (one element for each \<^verbatim>\<open>out_file.write(f"{line}\n")\<close>, without the newline), the
  messages given to \<^verbatim>\<open>update_status\<close> or \<^verbatim>\<open>print\<close> (with the flag: error
  style or \<^verbatim>\<open>stderr\<close>), the clipboard, and the delays of the clearing threads that
  \<^verbatim>\<open>clear_clipboard_after\<close> has started.
\<close>

record 'st world =
  store :: 'st
  calls :: "call list"
  out_file :: "pystr list"
  reports :: "(pystr \<times> bool) list"
  clipboard :: pystr
  timers :: "nat list"

text \<open>
  The surface: \<open>gui\<close> is \<^verbatim>\<open>result_display is not None\<close>; \<open>open_viewer\<close> is what
  opening the results file in the platform's viewer does (\<open>Some e\<close>: it raises \<open>e\<close>).
\<close>

record env =
  gui :: bool
  open_viewer :: "exn option"

text \<open>
  \<^verbatim>\<open>update_status(msg, is_error, display)\<close>: the label is set in GUI mode, the message
  is printed to \<^verbatim>\<open>stdout\<close> or \<^verbatim>\<open>stderr\<close> in CLI mode; either way one report.
\<close>

definition update_status :: "pystr \<Rightarrow> bool \<Rightarrow> 'st world \<Rightarrow> 'st world" where
  "update_status msg is_error w = w\<lparr>reports := reports w @ [(msg, is_error)]\<rparr>"

definition write_line :: "pystr \<Rightarrow> 'st world \<Rightarrow> 'st world" where
  "write_line line w = w\<lparr>out_file := out_file w @ [line]\<rparr>"

text \<open>
  \<^verbatim>\<open>clear_clipboard_after(delay)\<close> starts a daemon thread that sleeps and then empties
  the clipboard; the call returns at once. Only the start of the thread is recorded.
\<close>

definition clear_clipboard_after :: "nat \<Rightarrow> 'st world \<Rightarrow> 'st world" where
  "clear_clipboard_after delay w = w\<lparr>timers := timers w @ [delay]\<rparr>"

definition pyperclip_copy :: "pystr \<Rightarrow> 'st world \<Rightarrow> 'st world" where
  "pyperclip_copy text w = w\<lparr>clipboard := text\<rparr>"

subsection \<open>\<^verbatim>\<open>csv.DictReader\<close>\<close>

text \<open>
  The input is what \<^verbatim>\<open>csv.reader\<close> yields: one list of fields for each record of the
  file, the empty list for a blank line. \<^verbatim>\<open>DictReader\<close> takes the first record as
  \<^verbatim>\<open>fieldnames\<close> (\<^verbatim>\<open>None\<close> for an empty file), skips the blank records after it, and
  turns every other record into a dictionary: the fields in order under the field
  names, \<^verbatim>\<open>None\<close> (\<^verbatim>\<open>restval\<close>) under the names a short record does not reach. The
  surplus fields of a long record go under the key \<^verbatim>\<open>None\<close>, which the program never
  reads.
\<close>

type_synonym rowdict = "pystr \<rightharpoonup> pystr option"

definition fieldnames :: "pystr list list \<Rightarrow> pystr list option" where
  "fieldnames records = (case records of [] \<Rightarrow> None | names # rest \<Rightarrow> Some names)"

definition dict_row :: "pystr list \<Rightarrow> pystr list \<Rightarrow> rowdict" where
  "dict_row names row =
     map_of (zip names (map Some row @ replicate (length names - length row) None))"

definition DictReader :: "pystr list list \<Rightarrow> rowdict list" where
  "DictReader records =
     (case records of
        [] \<Rightarrow> []
      | names # rest \<Rightarrow> map (dict_row names) (filter (\<lambda>r. r \<noteq> []) rest))"

text \<open>A text between single quotes, and between double quotes.\<close>

definition quoted :: "pystr \<Rightarrow> pystr" where
  "quoted s = [39] @ s @ [39]"

definition dquoted :: "pystr \<Rightarrow> pystr" where
  "dquoted s = [34] @ s @ [34]"

text \<open>\<^verbatim>\<open>row.get(k)\<close>, \<^verbatim>\<open>row.get(k, default)\<close>, \<^verbatim>\<open>row[k]\<close>, and the truth value of a field.\<close>

definition dict_get :: "rowdict \<Rightarrow> pystr \<Rightarrow> pystr option" where
  "dict_get d k = (case d k of None \<Rightarrow> None | Some v \<Rightarrow> v)"

definition dict_get_default :: "rowdict \<Rightarrow> pystr \<Rightarrow> pystr \<Rightarrow> pystr option" where
  "dict_get_default d k dflt = (case d k of None \<Rightarrow> Some dflt | Some v \<Rightarrow> v)"

definition dict_item :: "rowdict \<Rightarrow> pystr \<Rightarrow> exn + pystr option" where
  "dict_item d k = (case d k of None \<Rightarrow> Inl (KeyError (quoted k)) | Some v \<Rightarrow> Inr v)"

definition truthy :: "pystr option \<Rightarrow> bool" where
  "truthy v = (case v of None \<Rightarrow> False | Some s \<Rightarrow> s \<noteq> [])"

text \<open>\<^verbatim>\<open>v.strip()\<close> on a value that may be \<^verbatim>\<open>None\<close>.\<close>

definition method_strip :: "pystr option \<Rightarrow> exn + pystr" where
  "method_strip v =
     (case v of
        None \<Rightarrow> Inl (AttributeError
          (quoted (asc ''NoneType'') @ asc '' object has no attribute '' @ quoted (asc ''strip'')))
      | Some s \<Rightarrow> Inr (strip s))"

text \<open>\<^verbatim>\<open>row[k].strip()\<close>.\<close>

definition item_strip :: "rowdict \<Rightarrow> pystr \<Rightarrow> exn + pystr" where
  "item_strip d k = (case dict_item d k of Inl e \<Rightarrow> Inl e | Inr v \<Rightarrow> method_strip v)"

text \<open>How an f-string renders the result of \<^verbatim>\<open>get_password\<close>.\<close>

definition format_result :: "pystr option \<Rightarrow> pystr" where
  "format_result r = (case r of None \<Rightarrow> asc ''None'' | Some s \<Rightarrow> s)"

subsection \<open>One row of \<^verbatim>\<open>process_bulk_csv\<close>\<close>

text \<open>
  \<^verbatim>\<open>system\<close> and \<^verbatim>\<open>username\<close> are local variables of \<^verbatim>\<open>process_bulk_csv\<close>, assigned
  inside the loop body and read by the handler of the row: unbound (\<open>None\<close>) until
  the first assignment, and keeping the value of an earlier row afterwards.
\<close>

record locals =
  l_system :: "pystr option"
  l_username :: "pystr option"

definition unbound :: locals where
  "unbound = \<lparr>l_system = None, l_username = None\<rparr>"

text \<open>Lines 141 to 147: the presence check and the four assignments.\<close>

definition read_fields ::
  "rowdict \<Rightarrow> locals \<Rightarrow> locals \<times> (exn + pystr \<times> pystr \<times> pystr \<times> pystr)" where
  "read_fields row loc =
    (if \<not> truthy (dict_get row (asc ''function'')) \<or> \<not> truthy (dict_get row (asc ''system''))
        \<or> \<not> truthy (dict_get row (asc ''username''))
     then (loc, Inl (ValueError (asc ''Missing required field(s): function, system, or username'')))
     else
      (case item_strip row (asc ''function'') of
         Inl e \<Rightarrow> (loc, Inl e)
       | Inr f \<Rightarrow>
      (let function = lower f in
       case item_strip row (asc ''system'') of
         Inl e \<Rightarrow> (loc, Inl e)
       | Inr system \<Rightarrow>
      (let loc1 = loc\<lparr>l_system := Some system\<rparr> in
       case item_strip row (asc ''username'') of
         Inl e \<Rightarrow> (loc1, Inl e)
       | Inr username \<Rightarrow>
      (let loc2 = loc1\<lparr>l_username := Some username\<rparr> in
       case method_strip (dict_get_default row (asc ''password'') []) of
         Inl e \<Rightarrow> (loc2, Inl e)
       | Inr password \<Rightarrow> (loc2, Inr (function, system, username, password)))))))"

text \<open>
  Lines 150 to 155: the length checks; \<open>Some e\<close> is the exception raised. The
  messages are the f-strings with the constants 254, 32 and 400 filled in; 8804 is
  the sign U+2264.
\<close>

definition check_lengths :: "pystr \<Rightarrow> pystr \<Rightarrow> pystr \<Rightarrow> pystr \<Rightarrow> exn option" where
  "check_lengths function system username password =
    (if length system > MAX_SYSTEM_LENGTH
     then Some (ValueError (asc ''System name must be '' @ [8804] @ asc ''254 characters''))
     else if length username > MAX_USERNAME_LENGTH
     then Some (ValueError (asc ''Username must be '' @ [8804] @ asc ''32 characters''))
     else if function = asc ''set'' \<and> length password > MAX_PASSWORD_LENGTH
     then Some (ValueError (asc ''Password must be '' @ [8804] @ asc ''400 characters''))
     else None)"

text \<open>Lines 157 to 170: the call to the library and the text of the result.\<close>

definition dispatch ::
  "'st keyring \<Rightarrow> pystr \<Rightarrow> pystr \<Rightarrow> pystr \<Rightarrow> pystr \<Rightarrow> 'st world \<Rightarrow> 'st world \<times> (exn + pystr)" where
  "dispatch K function system username password w =
    (if function = asc ''set'' then
       (case set_password K (store w) system username password of (r, st) \<Rightarrow>
        (let w1 = w\<lparr>store := st, calls := calls w @ [SetPassword system username password]\<rparr> in
         case r of
           Inl e \<Rightarrow> (w1, Inl e)
         | Inr u \<Rightarrow> (w1, Inr (asc ''Set password for '' @ system @ asc ''/'' @ username))))
     else if function = asc ''get'' then
       (case get_password K (store w) system username of (r, st) \<Rightarrow>
        (let w1 = w\<lparr>store := st, calls := calls w @ [GetPassword system username]\<rparr> in
         case r of
           Inl e \<Rightarrow> (w1, Inl e)
         | Inr result \<Rightarrow>
             (w1, Inr (asc ''Get password for '' @ system @ asc ''/'' @ username @ asc '': ''
                        @ format_result result))))
     else if function = asc ''del'' then
       (case delete_password K (store w) system username of (r, st) \<Rightarrow>
        (let w1 = w\<lparr>store := st, calls := calls w @ [DeletePassword system username]\<rparr> in
         case r of
           Inl e \<Rightarrow> (w1, Inl e)
         | Inr u \<Rightarrow> (w1, Inr (asc ''Deleted password for '' @ system @ asc ''/'' @ username))))
     else (w, Inl (ValueError (asc ''Invalid function: '' @ function))))"

text \<open>The body of the inner \<^verbatim>\<open>try\<close>, up to the result text or the exception.\<close>

definition try_row ::
  "'st keyring \<Rightarrow> rowdict \<Rightarrow> locals \<times> 'st world \<Rightarrow> (locals \<times> 'st world) \<times> (exn + pystr)" where
  "try_row K row lw =
    (case read_fields row (fst lw) of
       (loc1, Inl e) \<Rightarrow> ((loc1, snd lw), Inl e)
     | (loc1, Inr (function, system, username, password)) \<Rightarrow>
         (case check_lengths function system username password of
            Some e \<Rightarrow> ((loc1, snd lw), Inl e)
          | None \<Rightarrow>
              (case dispatch K function system username password (snd lw) of
                 (w1, r) \<Rightarrow> ((loc1, w1), r))))"

text \<open>
  Lines 175 to 178: the handler of the row. Its f-string reads \<^verbatim>\<open>system\<close> and
  \<^verbatim>\<open>username\<close>; reading an unbound local raises \<^verbatim>\<open>UnboundLocalError\<close> inside the
  handler, which leaves the loop (\<open>Some\<close> in the second component). The text of
  the error is that of Python 3.11 and later.
\<close>

definition unbound_local :: "string \<Rightarrow> exn" where
  "unbound_local name =
     UnboundLocalError (asc ''cannot access local variable '' @ quoted (asc name)
       @ asc '' where it is not associated with a value'')"

definition except_row :: "exn \<Rightarrow> locals \<times> 'st world \<Rightarrow> (locals \<times> 'st world) \<times> exn option" where
  "except_row e lw =
    (case l_system (fst lw) of
       None \<Rightarrow> (lw, Some (unbound_local ''system''))
     | Some system \<Rightarrow>
    (case l_username (fst lw) of
       None \<Rightarrow> (lw, Some (unbound_local ''username''))
     | Some username \<Rightarrow>
    (let error_msg = asc ''ERROR: '' @ system @ asc ''/'' @ username @ asc '' - '' @ str_exn e in
     ((fst lw, update_status error_msg True (write_line error_msg (snd lw))), None))))"

text \<open>One iteration of the loop.\<close>

definition process_row ::
  "'st keyring \<Rightarrow> rowdict \<Rightarrow> locals \<times> 'st world \<Rightarrow> (locals \<times> 'st world) \<times> exn option" where
  "process_row K row lw =
    (case try_row K row lw of
       ((loc1, w1), Inr result) \<Rightarrow>
         ((loc1, write_line (asc ''SUCCESS: '' @ result)
                   (update_status (asc ''SUCCESS: '' @ result) False w1)), None)
     | (lw1, Inl e) \<Rightarrow> except_row e lw1)"

text \<open>The loop over the rows; an exception that leaves a row ends it.\<close>

fun process_rows ::
  "'st keyring \<Rightarrow> rowdict list \<Rightarrow> locals \<times> 'st world \<Rightarrow> (locals \<times> 'st world) \<times> exn option" where
  "process_rows K [] lw = (lw, None)"
| "process_rows K (row # rows) lw =
     (case process_row K row lw of
        (lw1, Some e) \<Rightarrow> (lw1, Some e)
      | (lw1, None) \<Rightarrow> process_rows K rows lw1)"

subsection \<open>\<^verbatim>\<open>process_bulk_csv\<close>\<close>

definition header :: "pystr list" where
  "header = [asc ''function'', asc ''system'', asc ''username'', asc ''password'']"

text \<open>
  Lines 180 to 197: the completion message, the attempt to open the results file in
  GUI mode, and the clearing of the clipboard, at once and again after one second.
\<close>

definition completion_msg :: pystr where
  "completion_msg =
     asc ''Bulk processing complete.'' @ [10] @ asc ''Results saved to ''
       @ dquoted (asc ''./'' @ results_filename)"

definition complete :: "env \<Rightarrow> 'st world \<Rightarrow> 'st world" where
  "complete E w =
    (let w1 = update_status completion_msg False w;
         w2 = (if gui E
               then (case open_viewer E of
                       None \<Rightarrow> w1
                     | Some e \<Rightarrow>
                         update_status (asc ''Failed to auto-open results: '' @ str_exn e) True w1)
               else w1);
         w3 = pyperclip_copy [] w2
     in clear_clipboard_after 1 w3)"

text \<open>
  The outer \<^verbatim>\<open>try\<close>. \<open>file\<close> is what opening and reading the input gives: \<open>Inl e\<close>
  when \<^verbatim>\<open>open\<close> raises, the records otherwise. Opening the results file for writing
  empties it (that this can fail as well is not modelled). The locals of the call
  start unbound.
\<close>

definition bulk_try ::
  "'st keyring \<Rightarrow> env \<Rightarrow> exn + pystr list list \<Rightarrow> 'st world \<Rightarrow> 'st world \<times> exn option" where
  "bulk_try K E file w =
    (case file of
       Inl e \<Rightarrow> (w, Some e)
     | Inr records \<Rightarrow>
        (let w0 = w\<lparr>out_file := []\<rparr> in
         if fieldnames records \<noteq> Some header
         then (w0, Some (ValueError
                 (asc ''CSV must have headers: function,system,username,password'')))
         else
          (case process_rows K (DictReader records) (unbound, w0) of
             ((loc, w1), Some e) \<Rightarrow> (w1, Some e)
           | ((loc, w1), None) \<Rightarrow> (complete E w1, None))))"

text \<open>
  The whole function, with its outer handler (lines 199 to 203). The second component
  is the status of \<^verbatim>\<open>sys.exit\<close>, \<open>None\<close> when the function returns.
\<close>

definition process_bulk_csv ::
  "'st keyring \<Rightarrow> env \<Rightarrow> exn + pystr list list \<Rightarrow> 'st world \<Rightarrow> 'st world \<times> nat option" where
  "process_bulk_csv K E file w =
    (case bulk_try K E file w of
       (w1, None) \<Rightarrow> (w1, None)
     | (w1, Some e) \<Rightarrow>
         (update_status (asc ''Failed to process CSV: '' @ str_exn e) True w1,
          if gui E then None else Some 1))"

subsection \<open>\<^verbatim>\<open>cli_handler\<close>\<close>

text \<open>The command line has no label: \<^verbatim>\<open>result_display\<close> is \<^verbatim>\<open>None\<close>.\<close>

definition cli :: env where
  "cli = \<lparr>gui = False, open_viewer = None\<rparr>"

text \<open>
  What \<^verbatim>\<open>argparse\<close> returns: the file named by \<^verbatim>\<open>--bulk\<close> (here: what reading it
  gives) and the subcommand with its arguments. \<^verbatim>\<open>print\<close> is a report, flagged when it
  goes to \<^verbatim>\<open>stderr\<close>.
\<close>

datatype command =
    CmdSet pystr pystr pystr
  | CmdGet pystr pystr
  | CmdDel pystr pystr

record args =
  bulk :: "(exn + pystr list list) option"
  command :: "command option"

definition print :: "pystr \<Rightarrow> bool \<Rightarrow> 'st world \<Rightarrow> 'st world" where
  "print msg to_stderr w = w\<lparr>reports := reports w @ [(msg, to_stderr)]\<rparr>"

fun cmd_system :: "command \<Rightarrow> pystr" where
  "cmd_system (CmdSet system username password) = system"
| "cmd_system (CmdGet system username) = system"
| "cmd_system (CmdDel system username) = system"

fun cmd_username :: "command \<Rightarrow> pystr" where
  "cmd_username (CmdSet system username password) = username"
| "cmd_username (CmdGet system username) = username"
| "cmd_username (CmdDel system username) = username"

text \<open>Lines 244 to 252: the body of the \<^verbatim>\<open>try\<close> of a single operation.\<close>

fun cli_try :: "'st keyring \<Rightarrow> command \<Rightarrow> 'st world \<Rightarrow> 'st world \<times> exn option" where
  "cli_try K (CmdSet system username password) w =
    (case set_password K (store w) system username password of (r, st) \<Rightarrow>
     (let w1 = w\<lparr>store := st, calls := calls w @ [SetPassword system username password]\<rparr> in
      case r of
        Inl e \<Rightarrow> (w1, Some e)
      | Inr u \<Rightarrow>
          (print (asc ''Password set for '' @ dquoted (system @ asc ''/'' @ username) @ asc ''.'')
             False w1, None)))"
| "cli_try K (CmdGet system username) w =
    (case get_password K (store w) system username of (r, st) \<Rightarrow>
     (let w1 = w\<lparr>store := st, calls := calls w @ [GetPassword system username]\<rparr> in
      case r of
        Inl e \<Rightarrow> (w1, Some e)
      | Inr found \<Rightarrow>
          (let result = (if truthy found then format_result found else asc ''No password found'') in
           (print (asc ''Get password for '' @ system @ asc ''/'' @ username @ asc '': '' @ result)
              False w1, None))))"
| "cli_try K (CmdDel system username) w =
    (case delete_password K (store w) system username of (r, st) \<Rightarrow>
     (let w1 = w\<lparr>store := st, calls := calls w @ [DeletePassword system username]\<rparr> in
      case r of
        Inl e \<Rightarrow> (w1, Some e)
      | Inr u \<Rightarrow>
          (print (asc ''Credential store '' @ dquoted (system @ asc ''/'' @ username)
                    @ asc '' has been deleted.'') False w1, None)))"

text \<open>
  Lines 242 to 258: a single operation with its two handlers. The handler of
  \<^verbatim>\<open>PasswordDeleteError\<close> prints two lines to \<^verbatim>\<open>stdout\<close> and falls through; the
  handler of every other exception prints to \<^verbatim>\<open>stderr\<close> and calls \<^verbatim>\<open>sys.exit(1)\<close>.
\<close>

definition cli_command :: "'st keyring \<Rightarrow> command \<Rightarrow> 'st world \<Rightarrow> 'st world \<times> nat option" where
  "cli_command K c w =
    (case cli_try K c w of
       (w1, None) \<Rightarrow> (w1, None)
     | (w1, Some e) \<Rightarrow>
        (case e of
           PasswordDeleteError m \<Rightarrow>
             (print (asc ''Credential store '' @ dquoted (cmd_system c) @ asc '' may not exist, or username ''
                       @ dquoted (cmd_username c) @ asc '' may be incorrect.'') False
                (print (asc ''ERROR: Failed to delete credential store.'') False w1),
              None)
         | _ \<Rightarrow> (print (asc ''Error: '' @ str_exn e) True w1, Some 1)))"

text \<open>
  \<^verbatim>\<open>cli_handler\<close> after parsing; \<open>usage\<close> is the help text of \<^verbatim>\<open>argparse\<close>. The
  second component is the status of \<^verbatim>\<open>sys.exit\<close>; \<open>exit_code\<close> is the exit code of
  the process, 0 when the script runs to its end.
\<close>

definition cli_handler ::
  "'st keyring \<Rightarrow> pystr \<Rightarrow> args \<Rightarrow> 'st world \<Rightarrow> 'st world \<times> nat option" where
  "cli_handler K usage a w =
    (case bulk a of
       Some file \<Rightarrow> process_bulk_csv K cli file w
     | None \<Rightarrow>
        (case command a of
           Some c \<Rightarrow> cli_command K c w
         | None \<Rightarrow> (print usage False w, Some 1)))"

definition exit_code :: "nat option \<Rightarrow> nat" where
  "exit_code status = (case status of None \<Rightarrow> 0 | Some n \<Rightarrow> n)"

subsection \<open>The v1.0 scripts\<close>

text \<open>\<^verbatim>\<open>set_cred.py\<close>: every exception of \<^verbatim>\<open>set_password\<close> is caught and reported.\<close>

definition set_cred_main ::
  "'st keyring \<Rightarrow> pystr \<Rightarrow> pystr \<Rightarrow> pystr \<Rightarrow> 'st world \<Rightarrow> 'st world \<times> nat option" where
  "set_cred_main K system username password w =
    (case set_password K (store w) system username password of (r, st) \<Rightarrow>
     (let w1 = w\<lparr>store := st, calls := calls w @ [SetPassword system username password]\<rparr> in
      case r of
        Inr u \<Rightarrow>
          (print (asc ''Credential store '' @ dquoted system @ asc '' with username ''
                    @ dquoted username @ asc '' and password '' @ dquoted password
                    @ asc '' successfully created.'') False w1, None)
      | Inl e \<Rightarrow> (print (asc ''Ugh, something bad happened'') False w1, None)))"

text \<open>
  \<^verbatim>\<open>get_cred.py\<close>: no handler; an exception of \<^verbatim>\<open>get_password\<close> ends the process
  with a traceback and exit code 1.
\<close>

definition get_cred_main ::
  "'st keyring \<Rightarrow> pystr \<Rightarrow> pystr \<Rightarrow> 'st world \<Rightarrow> ('st world \<times> nat option) \<times> pystr option" where
  "get_cred_main K system username w =
    (case get_password K (store w) system username of (r, st) \<Rightarrow>
     (let w1 = w\<lparr>store := st, calls := calls w @ [GetPassword system username]\<rparr> in
      case r of
        Inl e \<Rightarrow> ((w1, Some 1), None)
      | Inr None \<Rightarrow>
          ((print (asc ''No credential store or password found: '' @ system @ asc '' / '' @ username)
              False w1, None), None)
      | Inr (Some result) \<Rightarrow> ((print result False w1, None), Some result)))"

text \<open>\<^verbatim>\<open>del_cred.py\<close>: three handlers, each of which prints and returns.\<close>

definition del_cred_main ::
  "'st keyring \<Rightarrow> pystr \<Rightarrow> pystr \<Rightarrow> 'st world \<Rightarrow> 'st world \<times> nat option" where
  "del_cred_main K system username w =
    (case delete_password K (store w) system username of (r, st) \<Rightarrow>
     (let w1 = w\<lparr>store := st, calls := calls w @ [DeletePassword system username]\<rparr> in
      case r of
        Inr u \<Rightarrow>
          (print (asc ''Credential store '' @ dquoted system @ asc '' has been deleted.'') False w1,
           None)
      | Inl e \<Rightarrow>
         (case e of
            PasswordDeleteError m \<Rightarrow>
              (print (asc ''Credential store '' @ dquoted system @ asc '' may not exist, or username ''
                        @ dquoted username @ asc '' may be incorrect.'') False
                 (print (asc ''Failed to delete credential store.'') False w1), None)
          | _ \<Rightarrow>
              (if is_KeyringError e
               then (print (asc ''Error: Base Error class for all exceptions in keyring lib'')
                       False w1, None)
               else (print (asc ''Ugh, something bad happened'') False w1, None)))))"

subsection \<open>A secret store\<close>

text \<open>
  Modelled from the spec: the platform secret store behind the \<^verbatim>\<open>keyring\<close> library,
  which is not part of the sources. Entries are keyed by the pair of system and
  username and hold the password; \<^verbatim>\<open>set\<close> stores, \<^verbatim>\<open>get\<close> returns the password or
  "absent", \<^verbatim>\<open>delete\<close> of an entry that does not exist signals the not-found error
  (\<^verbatim>\<open>PasswordDeleteError\<close> in the library; the text of the error is the backend's,
  here \<^verbatim>\<open>Password not found\<close>).
\<close>

definition dict_keyring :: "(pystr \<times> pystr \<rightharpoonup> pystr) keyring" where
  "dict_keyring =
    \<lparr> set_password = (\<lambda>st system username password.
         (Inr (), st((system, username) \<mapsto> password))),
      get_password = (\<lambda>st system username. (Inr (st (system, username)), st)),
      delete_password = (\<lambda>st system username.
         if st (system, username) = None
         then (Inl (PasswordDeleteError (asc ''Password not found'')), st)
         else (Inr (), st((system, username) := None))) \<rparr>"

definition world0 :: "'st \<Rightarrow> 'st world" where
  "world0 st = \<lparr> store = st, calls = [], out_file = [], reports = [], clipboard = [], timers = [] \<rparr>"

section \<open>Properties\<close>

subsection \<open>Reading a row\<close>

text \<open>A record with at least four fields under the required header.\<close>

lemma dict_row_header:
  "dict_row header (f # s # u # p # extra) (asc ''function'') = Some (Some f)"
  "dict_row header (f # s # u # p # extra) (asc ''system'') = Some (Some s)"
  "dict_row header (f # s # u # p # extra) (asc ''username'') = Some (Some u)"
  "dict_row header (f # s # u # p # extra) (asc ''password'') = Some (Some p)"
  by (simp_all add: dict_row_def header_def asc_def)

lemma read_fields_row:
  "read_fields (dict_row header (f # s # u # p # extra)) loc =
     (if f = [] \<or> s = [] \<or> u = []
      then (loc, Inl (ValueError (asc ''Missing required field(s): function, system, or username'')))
      else (loc\<lparr>l_system := Some (strip s), l_username := Some (strip u)\<rparr>,
            Inr (lower (strip f), strip s, strip u, strip p)))"
  by (simp add: read_fields_def dict_row_header dict_get_def dict_get_default_def dict_item_def
        item_strip_def method_strip_def truthy_def)

lemma try_row_row:
  "try_row K (dict_row header (f # s # u # p # extra)) (loc, w) =
     (if f = [] \<or> s = [] \<or> u = []
      then ((loc, w), Inl (ValueError (asc ''Missing required field(s): function, system, or username'')))
      else (case check_lengths (lower (strip f)) (strip s) (strip u) (strip p) of
              Some e \<Rightarrow> ((loc\<lparr>l_system := Some (strip s), l_username := Some (strip u)\<rparr>, w), Inl e)
            | None \<Rightarrow>
               (case dispatch K (lower (strip f)) (strip s) (strip u) (strip p) w of
                  (w1, r) \<Rightarrow> ((loc\<lparr>l_system := Some (strip s), l_username := Some (strip u)\<rparr>, w1), r))))"
  by (simp add: try_row_def read_fields_row split: option.split prod.split)

lemma asc_distinct:
  "asc ''set'' \<noteq> asc ''get''" "asc ''set'' \<noteq> asc ''del''" "asc ''get'' \<noteq> asc ''del''"
  "asc ''get'' \<noteq> asc ''set''" "asc ''del'' \<noteq> asc ''set''" "asc ''del'' \<noteq> asc ''get''"
  by (simp_all add: asc_def)

lemma check_lengths_ok:
  "length system \<le> MAX_SYSTEM_LENGTH \<Longrightarrow> length username \<le> MAX_USERNAME_LENGTH \<Longrightarrow>
   function = asc ''set'' \<longrightarrow> length password \<le> MAX_PASSWORD_LENGTH \<Longrightarrow>
   check_lengths function system username password = None"
  by (auto simp add: check_lengths_def)

lemmas eval_defs =
  strip_def isspace_def lower_def lower_cp_def asc_def
  MAX_SYSTEM_LENGTH_def MAX_USERNAME_LENGTH_def MAX_PASSWORD_LENGTH_def
  dict_keyring_def world0_def

text \<open>The definitions to unfold when a batch is run on a concrete input.\<close>

lemmas batch_defs =
  process_bulk_csv_def bulk_try_def fieldnames_def DictReader_def dict_row_def header_def
  process_row_def try_row_def read_fields_def check_lengths_def dispatch_def except_row_def
  dict_get_def dict_get_default_def dict_item_def item_strip_def method_strip_def truthy_def
  format_result_def update_status_def write_line_def complete_def completion_msg_def
  pyperclip_copy_def clear_clipboard_after_def quoted_def dquoted_def results_filename_def
  unbound_local_def unbound_def cli_def Let_def

subsection \<open>The outcome of a row\<close>

text \<open>
  A row that passes the presence check and the length checks: the outcome follows the
  result of the dispatch. A row that fails a length check: the handler has both locals.
\<close>

lemma process_row_checked:
  assumes "f \<noteq> []" "s \<noteq> []" "u \<noteq> []"
    and "check_lengths (lower (strip f)) (strip s) (strip u) (strip p) = None"
    and "dispatch K (lower (strip f)) (strip s) (strip u) (strip p) w = (w1, r)"
  shows "process_row K (dict_row header (f # s # u # p # extra)) (loc, w) =
     ((loc\<lparr>l_system := Some (strip s), l_username := Some (strip u)\<rparr>,
       (case r of
          Inr result \<Rightarrow>
            w1\<lparr>out_file := out_file w1 @ [asc ''SUCCESS: '' @ result],
               reports := reports w1 @ [(asc ''SUCCESS: '' @ result, False)]\<rparr>
        | Inl e \<Rightarrow>
            w1\<lparr>out_file := out_file w1 @
                   [asc ''ERROR: '' @ strip s @ asc ''/'' @ strip u @ asc '' - '' @ str_exn e],
               reports := reports w1 @
                   [(asc ''ERROR: '' @ strip s @ asc ''/'' @ strip u @ asc '' - '' @ str_exn e, True)]\<rparr>)),
      None)"
  using assms
  by (cases r)
     (simp_all add: process_row_def try_row_row except_row_def update_status_def write_line_def Let_def)

lemma process_row_too_long:
  assumes "f \<noteq> []" "s \<noteq> []" "u \<noteq> []"
    and "check_lengths (lower (strip f)) (strip s) (strip u) (strip p) = Some e"
  shows "process_row K (dict_row header (f # s # u # p # extra)) (loc, w) =
     ((loc\<lparr>l_system := Some (strip s), l_username := Some (strip u)\<rparr>,
       w\<lparr>out_file := out_file w @
            [asc ''ERROR: '' @ strip s @ asc ''/'' @ strip u @ asc '' - '' @ str_exn e],
         reports := reports w @
            [(asc ''ERROR: '' @ strip s @ asc ''/'' @ strip u @ asc '' - '' @ str_exn e, True)]\<rparr>),
      None)"
  using assms
  by (simp add: process_row_def try_row_row except_row_def update_status_def write_line_def Let_def)



subsection \<open>A \<^verbatim>\<open>set\<close> row with an empty password\<close>

text \<open>
  C1: the spec says that a \<^verbatim>\<open>set\<close> row whose password is empty after trimming is a
  failure and that \<^verbatim>\<open>set_password\<close> is not called for it. The batch has no such
  check (the form has one, in \<^verbatim>\<open>execute_action\<close> and \<^verbatim>\<open>validate_inputs\<close>): on the
  file with the one row \<^verbatim>\<open>set,svc,alice,\<close> it calls \<^verbatim>\<open>set_password\<close> with the
  empty password, and writes and reports a success.
\<close>

theorem bulk_set_empty_password_is_stored:
  "process_bulk_csv dict_keyring cli
     (Inr [header, [asc ''set'', asc ''svc'', asc ''alice'', []]]) (world0 Map.empty) =
   (\<lparr>store = [(asc ''svc'', asc ''alice'') \<mapsto> []],
     calls = [SetPassword (asc ''svc'') (asc ''alice'') []],
     out_file = [asc ''SUCCESS: Set password for svc/alice''],
     reports = [(asc ''SUCCESS: Set password for svc/alice'', False), (completion_msg, False)],
     clipboard = [], timers = [1]\<rparr>, None)"
  by (simp add: batch_defs eval_defs)

subsection \<open>A failing row and the rows after it\<close>

text \<open>
  C2: the spec says that a failing row never stops the rows after it and that the log
  has one line for each row. When the first row lacks a required field, the exception
  is raised before \<^verbatim>\<open>system\<close> and \<^verbatim>\<open>username\<close> are assigned, the handler of the row
  raises \<^verbatim>\<open>UnboundLocalError\<close> while it formats its message, and the outer handler
  ends the batch: on \<^verbatim>\<open>get,,alice,\<close> followed by \<^verbatim>\<open>set,svc1,alice,secret1\<close> the log
  stays empty, the library is never called, and the command line exits with 1.
\<close>

theorem first_row_failure_aborts_batch:
  "process_bulk_csv dict_keyring cli
     (Inr [header, [asc ''get'', [], asc ''alice'', []],
                   [asc ''set'', asc ''svc1'', asc ''alice'', asc ''secret1'']])
     (world0 Map.empty) =
   (\<lparr>store = Map.empty, calls = [], out_file = [],
     reports = [(asc ''Failed to process CSV: cannot access local variable '' @ quoted (asc ''system'')
                  @ asc '' where it is not associated with a value'', True)],
     clipboard = [], timers = []\<rparr>, Some 1)"
  by (simp add: batch_defs eval_defs)

subsection \<open>One line for each row, once the locals are bound\<close>

text \<open>
  The handler of a row can only fail while \<^verbatim>\<open>system\<close> or \<^verbatim>\<open>username\<close> is unbound. A
  row that passes the presence check binds both, and they stay bound: from then on
  every row, failing or not, writes exactly one line and the loop runs to its end.
\<close>

lemma item_strip_truthy:
  "truthy (dict_get d k) \<Longrightarrow> \<exists>v. item_strip d k = Inr v"
  by (auto simp add: truthy_def dict_get_def item_strip_def dict_item_def method_strip_def
        split: option.splits)

lemma read_fields_binds:
  assumes "truthy (dict_get row (asc ''function''))" "truthy (dict_get row (asc ''system''))"
    "truthy (dict_get row (asc ''username''))"
  shows "l_system (fst (read_fields row loc)) \<noteq> None \<and> l_username (fst (read_fields row loc)) \<noteq> None"
proof -
  obtain f where f: "item_strip row (asc ''function'') = Inr f"
    using item_strip_truthy [OF assms(1)] by blast
  obtain s where s: "item_strip row (asc ''system'') = Inr s"
    using item_strip_truthy [OF assms(2)] by blast
  obtain u where u: "item_strip row (asc ''username'') = Inr u"
    using item_strip_truthy [OF assms(3)] by blast
  show ?thesis
    using assms by (simp add: read_fields_def f s u Let_def split: sum.split)
qed

lemma read_fields_keeps_bound:
  assumes "l_system loc \<noteq> None" "l_username loc \<noteq> None"
  shows "l_system (fst (read_fields row loc)) \<noteq> None \<and> l_username (fst (read_fields row loc)) \<noteq> None"
  using assms by (simp add: read_fields_def Let_def split: sum.split)

lemma dispatch_out_file:
  "out_file (fst (dispatch K function system username password w)) = out_file w"
  by (simp add: dispatch_def Let_def split: prod.split sum.split)

lemma try_row_locals_and_log:
  "fst (fst (try_row K row (loc, w))) = fst (read_fields row loc)
   \<and> out_file (snd (fst (try_row K row (loc, w)))) = out_file w"
proof (cases "read_fields row loc")
  case (Pair loc1 r)
  show ?thesis
  proof (cases r)
    case (Inl e)
    with Pair show ?thesis by (simp add: try_row_def)
  next
    case (Inr t)
    obtain fn s u p where t: "t = (fn, s, u, p)" by (cases t) auto
    show ?thesis
    proof (cases "check_lengths fn s u p")
      case None
      obtain w1 r1 where d: "dispatch K fn s u p w = (w1, r1)" by (cases "dispatch K fn s u p w")
      have "out_file w1 = out_file w" using dispatch_out_file [of K fn s u p w] d by simp
      with Pair Inr t None d show ?thesis by (simp add: try_row_def)
    next
      case (Some e)
      with Pair Inr t show ?thesis by (simp add: try_row_def)
    qed
  qed
qed

lemma process_row_one_line:
  assumes "l_system (fst (read_fields row loc)) \<noteq> None" "l_username (fst (read_fields row loc)) \<noteq> None"
  shows "snd (process_row K row (loc, w)) = None
    \<and> l_system (fst (fst (process_row K row (loc, w)))) \<noteq> None
    \<and> l_username (fst (fst (process_row K row (loc, w)))) \<noteq> None
    \<and> length (out_file (snd (fst (process_row K row (loc, w))))) = Suc (length (out_file w))"
proof -
  obtain loc1 w1 r where t: "try_row K row (loc, w) = ((loc1, w1), r)"
    by (cases "try_row K row (loc, w)") auto
  have l: "loc1 = fst (read_fields row loc)" and o: "out_file w1 = out_file w"
    using try_row_locals_and_log [of K row loc w] t by simp_all
  obtain s u where su: "l_system loc1 = Some s" "l_username loc1 = Some u"
    using assms l by auto
  show ?thesis
    by (cases r)
       (simp_all add: process_row_def t except_row_def su o update_status_def write_line_def Let_def)
qed

lemma process_rows_one_line_each:
  assumes "l_system loc \<noteq> None" "l_username loc \<noteq> None"
  shows "snd (process_rows K rows (loc, w)) = None
    \<and> length (out_file (snd (fst (process_rows K rows (loc, w))))) = length (out_file w) + length rows"
  using assms
proof (induction rows arbitrary: loc w)
  case Nil
  then show ?case by simp
next
  case (Cons row rows)
  obtain loc1 w1 x where p: "process_row K row (loc, w) = ((loc1, w1), x)"
    by (cases "process_row K row (loc, w)") auto
  have "l_system (fst (read_fields row loc)) \<noteq> None \<and> l_username (fst (read_fields row loc)) \<noteq> None"
    using Cons.prems by (rule read_fields_keeps_bound)
  then have x: "x = None" and b: "l_system loc1 \<noteq> None" "l_username loc1 \<noteq> None"
    and n: "length (out_file w1) = Suc (length (out_file w))"
    using process_row_one_line [of row loc K w] p by simp_all
  show ?case
    using Cons.IH [OF b, of w1] by (simp add: p x n)
qed

lemma batch_one_line_per_row:
  assumes "truthy (dict_get row (asc ''function''))" "truthy (dict_get row (asc ''system''))"
    "truthy (dict_get row (asc ''username''))"
  shows "snd (process_rows K (row # rows) (unbound, w)) = None
    \<and> length (out_file (snd (fst (process_rows K (row # rows) (unbound, w))))) =
        length (out_file w) + length (row # rows)"
proof -
  obtain loc1 w1 x where p: "process_row K row (unbound, w) = ((loc1, w1), x)"
    by (cases "process_row K row (unbound, w)") auto
  have "l_system (fst (read_fields row unbound)) \<noteq> None \<and> l_username (fst (read_fields row unbound)) \<noteq> None"
    using assms by (rule read_fields_binds)
  then have x: "x = None" and b: "l_system loc1 \<noteq> None" "l_username loc1 \<noteq> None"
    and n: "length (out_file w1) = Suc (length (out_file w))"
    using process_row_one_line [of row unbound K w] p by simp_all
  show ?thesis
    using process_rows_one_line_each [OF b, of K rows w1] by (simp add: p x n)
qed

subsection \<open>The operation of a row\<close>




subsection \<open>The presence check and the length checks\<close>

text \<open>
  C4: the spec says that every field is trimmed before validation and that a row whose
  trimmed system or username is empty is a failure, a field of only whitespace
  included. The presence check (line 141) reads the fields before they are trimmed: on
  the file with the one row \<^verbatim>\<open>get,   ,alice,\<close> (a system of three spaces) the system
  passes the check, is trimmed to the empty string, \<^verbatim>\<open>get_password\<close> is called with
  it, and a success is written and reported. The form trims first and then tests for
  emptiness (\<^verbatim>\<open>validate_inputs\<close>).
\<close>

theorem whitespace_only_system_is_accepted:
  "process_bulk_csv dict_keyring cli
     (Inr [header, [asc ''get'', asc ''   '', asc ''alice'', []]]) (world0 Map.empty) =
   (\<lparr>store = Map.empty, calls = [GetPassword [] (asc ''alice'')],
     out_file = [asc ''SUCCESS: Get password for /alice: None''],
     reports = [(asc ''SUCCESS: Get password for /alice: None'', False), (completion_msg, False)],
     clipboard = [], timers = [1]\<rparr>, None)"
  by (simp add: batch_defs eval_defs)

text \<open>The same for a username of only whitespace.\<close>

lemma whitespace_only_username_is_accepted:
  "process_bulk_csv dict_keyring cli
     (Inr [header, [asc ''get'', asc ''svc'', asc ''   '', []]]) (world0 Map.empty) =
   (\<lparr>store = Map.empty, calls = [GetPassword (asc ''svc'') []],
     out_file = [asc ''SUCCESS: Get password for svc/: None''],
     reports = [(asc ''SUCCESS: Get password for svc/: None'', False), (completion_msg, False)],
     clipboard = [], timers = [1]\<rparr>, None)"
  by (simp add: batch_defs eval_defs)

text \<open>Trimming a run of one character that is padded by one whitespace on each side.\<close>

lemma strip_padded:
  assumes "isspace a" "isspace b" "\<not> isspace x" "0 < n"
  shows "strip (a # replicate n x @ [b]) = replicate n x"
proof -
  obtain k where n: "n = Suc k" using assms(4) by (cases n) auto
  have "dropWhile isspace (a # replicate n x @ [b]) = replicate n x @ [b]"
    using assms(1,3) by (simp add: n)
  moreover have "rev (replicate n x @ [b]) = b # replicate n x"
    by simp
  moreover have "dropWhile isspace (b # replicate n x) = replicate n x"
    using assms(2,3) by (simp add: n)
  ultimately show ?thesis by (simp add: strip_def)
qed

lemma check_lengths_system:
  "MAX_SYSTEM_LENGTH < length system \<Longrightarrow>
   check_lengths function system username password =
     Some (ValueError (asc ''System name must be '' @ [8804] @ asc ''254 characters''))"
  by (simp add: check_lengths_def)

lemma check_lengths_username:
  "length system \<le> MAX_SYSTEM_LENGTH \<Longrightarrow> MAX_USERNAME_LENGTH < length username \<Longrightarrow>
   check_lengths function system username password =
     Some (ValueError (asc ''Username must be '' @ [8804] @ asc ''32 characters''))"
  by (simp add: check_lengths_def)

text \<open>
  What the length checks do. For a row with at least four fields whose function, system
  and username fields are not empty as read, system and username are trimmed before the
  length checks, and the row is a failure whenever the trimmed system has more than 254
  characters (reason: the system-length limit; so for exactly 255) or, the system
  being within its bound, the trimmed username has more than 32 (reason: the
  username-length limit); the library is not called. When one of the three fields is
  empty as read, the body of the row raises at the presence check, with the reason
  \<^verbatim>\<open>Missing required field(s): function, system, or username\<close>, whatever the length
  of the system.
\<close>

lemma length_bounds_enforced:
  "(f \<noteq> [] \<and> s \<noteq> [] \<and> u \<noteq> [] \<and> MAX_SYSTEM_LENGTH < length (strip s) \<longrightarrow>
      process_row K (dict_row header (f # s # u # p # extra)) (loc, w) =
        ((loc\<lparr>l_system := Some (strip s), l_username := Some (strip u)\<rparr>,
          w\<lparr>out_file := out_file w @
               [asc ''ERROR: '' @ strip s @ asc ''/'' @ strip u @ asc '' - System name must be ''
                  @ [8804] @ asc ''254 characters''],
            reports := reports w @
               [(asc ''ERROR: '' @ strip s @ asc ''/'' @ strip u @ asc '' - System name must be ''
                  @ [8804] @ asc ''254 characters'', True)]\<rparr>),
         None))
   \<and> (f \<noteq> [] \<and> s \<noteq> [] \<and> u \<noteq> [] \<and> length (strip s) \<le> MAX_SYSTEM_LENGTH
        \<and> MAX_USERNAME_LENGTH < length (strip u) \<longrightarrow>
      process_row K (dict_row header (f # s # u # p # extra)) (loc, w) =
        ((loc\<lparr>l_system := Some (strip s), l_username := Some (strip u)\<rparr>,
          w\<lparr>out_file := out_file w @
               [asc ''ERROR: '' @ strip s @ asc ''/'' @ strip u @ asc '' - Username must be ''
                  @ [8804] @ asc ''32 characters''],
            reports := reports w @
               [(asc ''ERROR: '' @ strip s @ asc ''/'' @ strip u @ asc '' - Username must be ''
                  @ [8804] @ asc ''32 characters'', True)]\<rparr>),
         None))
   \<and> (f = [] \<or> s = [] \<or> u = [] \<longrightarrow>
      try_row K (dict_row header (f # s # u # p # extra)) (loc, w) =
        ((loc, w),
         Inl (ValueError (asc ''Missing required field(s): function, system, or username''))))"
proof (intro conjI impI)
  assume a: "f \<noteq> [] \<and> s \<noteq> [] \<and> u \<noteq> [] \<and> MAX_SYSTEM_LENGTH < length (strip s)"
  then have "check_lengths (lower (strip f)) (strip s) (strip u) (strip p) =
               Some (ValueError (asc ''System name must be '' @ [8804] @ asc ''254 characters''))"
    by (simp add: check_lengths_system)
  with a show "process_row K (dict_row header (f # s # u # p # extra)) (loc, w) =
        ((loc\<lparr>l_system := Some (strip s), l_username := Some (strip u)\<rparr>,
          w\<lparr>out_file := out_file w @
               [asc ''ERROR: '' @ strip s @ asc ''/'' @ strip u @ asc '' - System name must be ''
                  @ [8804] @ asc ''254 characters''],
            reports := reports w @
               [(asc ''ERROR: '' @ strip s @ asc ''/'' @ strip u @ asc '' - System name must be ''
                  @ [8804] @ asc ''254 characters'', True)]\<rparr>),
         None)"
    by (simp add: process_row_too_long asc_def)
next
  assume a: "f \<noteq> [] \<and> s \<noteq> [] \<and> u \<noteq> [] \<and> length (strip s) \<le> MAX_SYSTEM_LENGTH
        \<and> MAX_USERNAME_LENGTH < length (strip u)"
  then have "check_lengths (lower (strip f)) (strip s) (strip u) (strip p) =
               Some (ValueError (asc ''Username must be '' @ [8804] @ asc ''32 characters''))"
    by (simp add: check_lengths_username)
  with a show "process_row K (dict_row header (f # s # u # p # extra)) (loc, w) =
        ((loc\<lparr>l_system := Some (strip s), l_username := Some (strip u)\<rparr>,
          w\<lparr>out_file := out_file w @
               [asc ''ERROR: '' @ strip s @ asc ''/'' @ strip u @ asc '' - Username must be ''
                  @ [8804] @ asc ''32 characters''],
            reports := reports w @
               [(asc ''ERROR: '' @ strip s @ asc ''/'' @ strip u @ asc '' - Username must be ''
                  @ [8804] @ asc ''32 characters'', True)]\<rparr>),
         None)"
    by (simp add: process_row_too_long asc_def)
next
  assume "f = [] \<or> s = [] \<or> u = []"
  then show "try_row K (dict_row header (f # s # u # p # extra)) (loc, w) =
        ((loc, w),
         Inl (ValueError (asc ''Missing required field(s): function, system, or username'')))"
    by (simp add: try_row_row)
qed

lemma length_bounds_enforced_example:
  "process_row dict_keyring
      (dict_row header [asc ''get'', 32 # replicate 255 120 @ [32], asc '' alice'', []])
      (unbound, world0 Map.empty) =
     ((\<lparr>l_system = Some (replicate 255 120), l_username = Some (asc ''alice'')\<rparr>,
       \<lparr>store = Map.empty, calls = [],
        out_file = [asc ''ERROR: '' @ replicate 255 120 @ asc ''/alice - System name must be ''
                      @ [8804] @ asc ''254 characters''],
        reports = [(asc ''ERROR: '' @ replicate 255 120 @ asc ''/alice - System name must be ''
                      @ [8804] @ asc ''254 characters'', True)],
        clipboard = [], timers = []\<rparr>), None)
   \<and> process_row dict_keyring
      (dict_row header [asc ''get'', asc ''svc'', 32 # replicate 33 117 @ [32], []])
      (unbound, world0 Map.empty) =
     ((\<lparr>l_system = Some (asc ''svc''), l_username = Some (replicate 33 117)\<rparr>,
       \<lparr>store = Map.empty, calls = [],
        out_file = [asc ''ERROR: svc/'' @ replicate 33 117 @ asc '' - Username must be ''
                      @ [8804] @ asc ''32 characters''],
        reports = [(asc ''ERROR: svc/'' @ replicate 33 117 @ asc '' - Username must be ''
                      @ [8804] @ asc ''32 characters'', True)],
        clipboard = [], timers = []\<rparr>), None)
   \<and> try_row dict_keyring (dict_row header [asc ''get'', replicate 255 120, [], []])
      (unbound, world0 Map.empty) =
     ((unbound, world0 Map.empty),
      Inl (ValueError (asc ''Missing required field(s): function, system, or username'')))"
proof -
  have s: "strip (32 # replicate 255 120 @ [32]) = replicate 255 120"
    by (rule strip_padded) (simp_all add: isspace_def)
  have u: "strip (32 # replicate 33 117 @ [32]) = replicate 33 117"
    by (rule strip_padded) (simp_all add: isspace_def)
  have a: "strip (asc '' alice'') = asc ''alice''" "strip (asc ''svc'') = asc ''svc''"
    by (simp_all add: strip_def isspace_def asc_def)
  show ?thesis
    using
      length_bounds_enforced [of "asc ''get''" "32 # replicate 255 120 @ [32]" "asc '' alice''"
        dict_keyring "[]" "[]" unbound "world0 Map.empty"]
      length_bounds_enforced [of "asc ''get''" "asc ''svc''" "32 # replicate 33 117 @ [32]"
        dict_keyring "[]" "[]" unbound "world0 Map.empty"]
      length_bounds_enforced [of "asc ''get''" "replicate 255 120" "[]"
        dict_keyring "[]" "[]" unbound "world0 Map.empty"]
    unfolding s u a
    by (simp add: MAX_SYSTEM_LENGTH_def MAX_USERNAME_LENGTH_def unbound_def world0_def asc_def)
qed

text \<open>
  The order of the checks in a batch: with an empty username the presence check comes
  before the length check, and the line names the missing fields (under the system and
  username of the row before, which the locals still hold).
\<close>

lemma long_system_with_missing_username_cites_missing_field:
  "process_bulk_csv dict_keyring cli
     (Inr [header, [asc ''get'', asc ''svc1'', asc ''alice'', []],
                   [asc ''get'', replicate 255 120, [], []]])
     (world0 Map.empty) =
   (\<lparr>store = Map.empty, calls = [GetPassword (asc ''svc1'') (asc ''alice'')],
     out_file = [asc ''SUCCESS: Get password for svc1/alice: None'',
                 asc ''ERROR: svc1/alice - Missing required field(s): function, system, or username''],
     reports = [(asc ''SUCCESS: Get password for svc1/alice: None'', False),
                (asc ''ERROR: svc1/alice - Missing required field(s): function, system, or username'', True),
                (completion_msg, False)],
     clipboard = [], timers = [1]\<rparr>, None)"
  by (simp add: batch_defs eval_defs)

subsection \<open>A header that is not the required one\<close>

text \<open>
  C5: when the first record of the file is not exactly
  \<^verbatim>\<open>function,system,username,password\<close> (an empty file included), the batch fails
  before any row: the results file is left empty, the library is not called and the
  store is as it was, the failure is reported once, flagged as an error, and on the
  command line the process exits with 1.
\<close>

theorem malformed_header_is_fatal:
  assumes "fieldnames records \<noteq> Some header"
  shows "process_bulk_csv K E (Inr records) w =
           (w\<lparr>out_file := [],
              reports := reports w @
                [(asc ''Failed to process CSV: CSV must have headers: function,system,username,password'',
                  True)]\<rparr>,
            if gui E then None else Some 1)
         \<and> exit_code (snd (cli_handler K usage \<lparr>bulk = Some (Inr records), command = c\<rparr> w)) = 1"
  using assms
  by (simp add: process_bulk_csv_def bulk_try_def update_status_def cli_handler_def cli_def
        exit_code_def asc_def)

theorem malformed_header_is_fatal_witness:
  "fieldnames [[asc ''func'', asc ''system'', asc ''username'', asc ''password''],
               [asc ''set'', asc ''svc'', asc ''alice'', asc ''pw'']] \<noteq> Some header
   \<and> process_bulk_csv dict_keyring cli
        (Inr [[asc ''func'', asc ''system'', asc ''username'', asc ''password''],
              [asc ''set'', asc ''svc'', asc ''alice'', asc ''pw'']]) (world0 Map.empty) =
      (\<lparr>store = Map.empty, calls = [], out_file = [],
        reports = [(asc ''Failed to process CSV: CSV must have headers: function,system,username,password'',
                    True)],
        clipboard = [], timers = []\<rparr>, Some 1)"
proof -
  have h: "fieldnames [[asc ''func'', asc ''system'', asc ''username'', asc ''password''],
               [asc ''set'', asc ''svc'', asc ''alice'', asc ''pw'']] \<noteq> Some header"
    by (simp add: fieldnames_def header_def asc_def)
  show ?thesis
    using h malformed_header_is_fatal [OF h, of dict_keyring cli "world0 Map.empty" "[]" None]
    by (simp add: world0_def cli_def)
qed

subsection \<open>A \<^verbatim>\<open>del\<close> row for an absent entry\<close>

text \<open>
  C6: in batch mode, a \<^verbatim>\<open>del\<close> row whose fields pass the checks and for which
  \<^verbatim>\<open>delete_password\<close> raises (as the library does for a pair with no entry) is
  written and reported as \<^verbatim>\<open>ERROR: <system>/<username> - <the error's text>\<close>, never as
  a success, and the batch goes on with the next row.
\<close>

theorem delete_error_is_recorded_and_batch_continues:
  assumes "f \<noteq> []" "s \<noteq> []" "u \<noteq> []"
    and "length (strip s) \<le> MAX_SYSTEM_LENGTH" "length (strip u) \<le> MAX_USERNAME_LENGTH"
    and "lower (strip f) = asc ''del''"
    and "delete_password K (store w) (strip s) (strip u) = (Inl e, st)"
  shows "process_rows K (dict_row header (f # s # u # p # extra) # rows) (loc, w) =
         process_rows K rows
           (loc\<lparr>l_system := Some (strip s), l_username := Some (strip u)\<rparr>,
            w\<lparr>store := st,
              calls := calls w @ [DeletePassword (strip s) (strip u)],
              out_file := out_file w @
                [asc ''ERROR: '' @ strip s @ asc ''/'' @ strip u @ asc '' - '' @ str_exn e],
              reports := reports w @
                [(asc ''ERROR: '' @ strip s @ asc ''/'' @ strip u @ asc '' - '' @ str_exn e, True)]\<rparr>)"
proof -
  have "check_lengths (lower (strip f)) (strip s) (strip u) (strip p) = None"
    using assms by (simp add: check_lengths_ok asc_distinct)
  moreover have "dispatch K (asc ''del'') (strip s) (strip u) (strip p) w =
     (w\<lparr>store := st, calls := calls w @ [DeletePassword (strip s) (strip u)]\<rparr>, Inl e)"
    using assms(7) by (simp add: dispatch_def asc_distinct)
  ultimately have "process_row K (dict_row header (f # s # u # p # extra)) (loc, w) =
      ((loc\<lparr>l_system := Some (strip s), l_username := Some (strip u)\<rparr>,
        w\<lparr>store := st,
          calls := calls w @ [DeletePassword (strip s) (strip u)],
          out_file := out_file w @
            [asc ''ERROR: '' @ strip s @ asc ''/'' @ strip u @ asc '' - '' @ str_exn e],
          reports := reports w @
            [(asc ''ERROR: '' @ strip s @ asc ''/'' @ strip u @ asc '' - '' @ str_exn e, True)]\<rparr>),
       None)"
    using assms(1-3,6)
    by (simp add: process_row_def try_row_row except_row_def update_status_def write_line_def Let_def)
  then show ?thesis by simp
qed

theorem delete_error_is_recorded_and_batch_continues_witness:
  "process_rows dict_keyring
      [dict_row header [asc ''del'', asc ''svc2'', asc ''bob'', []],
       dict_row header [asc ''get'', asc ''svc1'', asc ''alice'', []]]
      (unbound, world0 [(asc ''svc1'', asc ''alice'') \<mapsto> asc ''secret1'']) =
   ((\<lparr>l_system = Some (asc ''svc1''), l_username = Some (asc ''alice'')\<rparr>,
     \<lparr>store = [(asc ''svc1'', asc ''alice'') \<mapsto> asc ''secret1''],
      calls = [DeletePassword (asc ''svc2'') (asc ''bob''), GetPassword (asc ''svc1'') (asc ''alice'')],
      out_file = [asc ''ERROR: svc2/bob - Password not found'',
                  asc ''SUCCESS: Get password for svc1/alice: secret1''],
      reports = [(asc ''ERROR: svc2/bob - Password not found'', True),
                 (asc ''SUCCESS: Get password for svc1/alice: secret1'', False)],
      clipboard = [], timers = []\<rparr>), None)"
  using delete_error_is_recorded_and_batch_continues
    [of "asc ''del''" "asc ''svc2''" "asc ''bob''" dict_keyring
        "world0 [(asc ''svc1'', asc ''alice'') \<mapsto> asc ''secret1'']"
        "PasswordDeleteError (asc ''Password not found'')"
        "[(asc ''svc1'', asc ''alice'') \<mapsto> asc ''secret1'']" "[]" "[]"
        "[dict_row header [asc ''get'', asc ''svc1'', asc ''alice'', []]]" unbound]
  by (simp add: batch_defs eval_defs)

subsection \<open>A store error on the command line\<close>

text \<open>
  C7: the spec says that every store error of a single operation ends the process with
  a nonzero exit code, as the docstring of \<^verbatim>\<open>cli_handler\<close> says (exits with status 1
  on error). The handler of \<^verbatim>\<open>PasswordDeleteError\<close> prints two lines to \<^verbatim>\<open>stdout\<close>
  and returns: \<^verbatim>\<open>del svc2 bob\<close> on a store without that entry ends with exit code 0,
  in \<^verbatim>\<open>keyring_tools.py\<close> and in \<^verbatim>\<open>del_cred.py\<close>.
\<close>

theorem cli_delete_absent_exits_zero:
  "cli_handler dict_keyring [] \<lparr>bulk = None, command = Some (CmdDel (asc ''svc2'') (asc ''bob''))\<rparr>
     (world0 Map.empty) =
   (\<lparr>store = Map.empty, calls = [DeletePassword (asc ''svc2'') (asc ''bob'')], out_file = [],
     reports = [(asc ''ERROR: Failed to delete credential store.'', False),
                (asc ''Credential store '' @ dquoted (asc ''svc2'') @ asc '' may not exist, or username ''
                   @ dquoted (asc ''bob'') @ asc '' may be incorrect.'', False)],
     clipboard = [], timers = []\<rparr>, None)
   \<and> exit_code (snd (cli_handler dict_keyring []
         \<lparr>bulk = None, command = Some (CmdDel (asc ''svc2'') (asc ''bob''))\<rparr> (world0 Map.empty))) = 0
   \<and> exit_code (snd (del_cred_main dict_keyring (asc ''svc2'') (asc ''bob'') (world0 Map.empty))) = 0"
  by (simp add: cli_handler_def cli_command_def del_cred_main_def print_def exit_code_def
        dquoted_def eval_defs)

subsection \<open>Set, then get\<close>

lemma dispatch_set_dict:
  "dispatch dict_keyring (asc ''set'') system username password w =
     (w\<lparr>store := (store w)((system, username) \<mapsto> password),
        calls := calls w @ [SetPassword system username password]\<rparr>,
      Inr (asc ''Set password for '' @ system @ asc ''/'' @ username))"
  by (simp add: dispatch_def dict_keyring_def)

lemma dispatch_get_dict:
  "dispatch dict_keyring (asc ''get'') system username password w =
     (w\<lparr>calls := calls w @ [GetPassword system username]\<rparr>,
      Inr (asc ''Get password for '' @ system @ asc ''/'' @ username @ asc '': ''
             @ format_result (store w (system, username))))"
  by (simp add: dispatch_def dict_keyring_def asc_distinct)

text \<open>
  C8: on the secret store of the spec, \<^verbatim>\<open>get\<close> after \<^verbatim>\<open>set\<close> for the same system and
  username returns exactly the password that was set. This holds for the two
  operations themselves, for \<^verbatim>\<open>set_cred.py\<close> followed by \<^verbatim>\<open>get_cred.py\<close>, and in
  batch mode: a \<^verbatim>\<open>set\<close> row and a \<^verbatim>\<open>get\<close> row with the same system and username, with
  fields that pass the checks, are both successes, and the second line shows the
  password of the first row (the fields as trimmed, which is what the checks accept
  and the store receives).
\<close>

theorem set_then_get_returns_password:
  "fst (get_password dict_keyring
         (snd (set_password dict_keyring st system username password)) system username) =
     Inr (Some password)
   \<and> snd (get_cred_main dict_keyring system username
            (fst (set_cred_main dict_keyring system username password w0))) = Some password
   \<and> (f1 \<noteq> [] \<and> f2 \<noteq> [] \<and> s \<noteq> [] \<and> u \<noteq> []
        \<and> length (strip s) \<le> MAX_SYSTEM_LENGTH \<and> length (strip u) \<le> MAX_USERNAME_LENGTH
        \<and> length (strip p) \<le> MAX_PASSWORD_LENGTH
        \<and> lower (strip f1) = asc ''set'' \<and> lower (strip f2) = asc ''get'' \<longrightarrow>
       process_rows dict_keyring
         [dict_row header (f1 # s # u # p # e1), dict_row header (f2 # s # u # q # e2)] (loc, w) =
       ((loc\<lparr>l_system := Some (strip s), l_username := Some (strip u)\<rparr>,
         w\<lparr>store := (store w)((strip s, strip u) \<mapsto> strip p),
           calls := calls w @ [SetPassword (strip s) (strip u) (strip p),
                               GetPassword (strip s) (strip u)],
           out_file := out_file w @
             [asc ''SUCCESS: Set password for '' @ strip s @ asc ''/'' @ strip u,
              asc ''SUCCESS: Get password for '' @ strip s @ asc ''/'' @ strip u @ asc '': '' @ strip p],
           reports := reports w @
             [(asc ''SUCCESS: Set password for '' @ strip s @ asc ''/'' @ strip u, False),
              (asc ''SUCCESS: Get password for '' @ strip s @ asc ''/'' @ strip u @ asc '': '' @ strip p,
               False)]\<rparr>),
        None))"
proof (intro conjI impI)
  show "fst (get_password dict_keyring
         (snd (set_password dict_keyring st system username password)) system username) =
     Inr (Some password)"
    by (simp add: dict_keyring_def)
next
  show "snd (get_cred_main dict_keyring system username
            (fst (set_cred_main dict_keyring system username password w0))) = Some password"
    by (simp add: get_cred_main_def set_cred_main_def dict_keyring_def print_def)
next
  assume a: "f1 \<noteq> [] \<and> f2 \<noteq> [] \<and> s \<noteq> [] \<and> u \<noteq> []
        \<and> length (strip s) \<le> MAX_SYSTEM_LENGTH \<and> length (strip u) \<le> MAX_USERNAME_LENGTH
        \<and> length (strip p) \<le> MAX_PASSWORD_LENGTH
        \<and> lower (strip f1) = asc ''set'' \<and> lower (strip f2) = asc ''get''"
  let ?loc = "loc\<lparr>l_system := Some (strip s), l_username := Some (strip u)\<rparr>"
  let ?w1 = "w\<lparr>store := (store w)((strip s, strip u) \<mapsto> strip p),
               calls := calls w @ [SetPassword (strip s) (strip u) (strip p)],
               out_file := out_file w @ [asc ''SUCCESS: Set password for '' @ strip s @ asc ''/'' @ strip u],
               reports := reports w @
                 [(asc ''SUCCESS: Set password for '' @ strip s @ asc ''/'' @ strip u, False)]\<rparr>"
  have ok1: "check_lengths (lower (strip f1)) (strip s) (strip u) (strip p) = None"
    using a by (simp add: check_lengths_ok)
  have ok2: "check_lengths (lower (strip f2)) (strip s) (strip u) (strip q) = None"
    using a by (simp add: check_lengths_ok asc_distinct)
  have d1: "dispatch dict_keyring (lower (strip f1)) (strip s) (strip u) (strip p) w =
     (w\<lparr>store := (store w)((strip s, strip u) \<mapsto> strip p),
        calls := calls w @ [SetPassword (strip s) (strip u) (strip p)]\<rparr>,
      Inr (asc ''Set password for '' @ strip s @ asc ''/'' @ strip u))"
    using a by (simp add: dispatch_set_dict)
  have r1: "process_row dict_keyring (dict_row header (f1 # s # u # p # e1)) (loc, w) =
              ((?loc, ?w1), None)"
    using a process_row_checked [OF _ _ _ ok1 d1, of e1 loc] by (simp add: asc_def)
  have d2: "dispatch dict_keyring (lower (strip f2)) (strip s) (strip u) (strip q) ?w1 =
     (?w1\<lparr>calls := calls ?w1 @ [GetPassword (strip s) (strip u)]\<rparr>,
      Inr (asc ''Get password for '' @ strip s @ asc ''/'' @ strip u @ asc '': '' @ strip p))"
    using a by (simp add: dispatch_get_dict format_result_def)
  have r2: "process_row dict_keyring (dict_row header (f2 # s # u # q # e2)) (?loc, ?w1) =
     ((?loc,
       w\<lparr>store := (store w)((strip s, strip u) \<mapsto> strip p),
         calls := calls w @ [SetPassword (strip s) (strip u) (strip p),
                             GetPassword (strip s) (strip u)],
         out_file := out_file w @
           [asc ''SUCCESS: Set password for '' @ strip s @ asc ''/'' @ strip u,
            asc ''SUCCESS: Get password for '' @ strip s @ asc ''/'' @ strip u @ asc '': '' @ strip p],
         reports := reports w @
           [(asc ''SUCCESS: Set password for '' @ strip s @ asc ''/'' @ strip u, False),
            (asc ''SUCCESS: Get password for '' @ strip s @ asc ''/'' @ strip u @ asc '': '' @ strip p,
             False)]\<rparr>),
      None)"
    using a process_row_checked [OF _ _ _ ok2 d2, of e2 ?loc] by (simp add: asc_def)
  show "process_rows dict_keyring
         [dict_row header (f1 # s # u # p # e1), dict_row header (f2 # s # u # q # e2)] (loc, w) =
       ((?loc,
         w\<lparr>store := (store w)((strip s, strip u) \<mapsto> strip p),
           calls := calls w @ [SetPassword (strip s) (strip u) (strip p),
                               GetPassword (strip s) (strip u)],
           out_file := out_file w @
             [asc ''SUCCESS: Set password for '' @ strip s @ asc ''/'' @ strip u,
              asc ''SUCCESS: Get password for '' @ strip s @ asc ''/'' @ strip u @ asc '': '' @ strip p],
           reports := reports w @
             [(asc ''SUCCESS: Set password for '' @ strip s @ asc ''/'' @ strip u, False),
              (asc ''SUCCESS: Get password for '' @ strip s @ asc ''/'' @ strip u @ asc '': '' @ strip p,
               False)]\<rparr>),
        None)"
    by (simp add: r1 r2)
qed

theorem set_then_get_returns_password_witness:
  "process_rows dict_keyring
      [dict_row header [asc ''set'', asc ''svc'', asc ''alice'', asc ''p@ss''],
       dict_row header [asc ''get'', asc ''svc'', asc ''alice'', []]] (unbound, world0 Map.empty) =
     ((\<lparr>l_system = Some (asc ''svc''), l_username = Some (asc ''alice'')\<rparr>,
       \<lparr>store = [(asc ''svc'', asc ''alice'') \<mapsto> asc ''p@ss''],
        calls = [SetPassword (asc ''svc'') (asc ''alice'') (asc ''p@ss''),
                 GetPassword (asc ''svc'') (asc ''alice'')],
        out_file = [asc ''SUCCESS: Set password for svc/alice'',
                    asc ''SUCCESS: Get password for svc/alice: p@ss''],
        reports = [(asc ''SUCCESS: Set password for svc/alice'', False),
                   (asc ''SUCCESS: Get password for svc/alice: p@ss'', False)],
        clipboard = [], timers = []\<rparr>), None)
   \<and> fst (get_password dict_keyring
         (snd (set_password dict_keyring Map.empty (asc ''svc'') (asc ''alice'') (asc ''p@ss'')))
         (asc ''svc'') (asc ''alice'')) = Inr (Some (asc ''p@ss''))"
  using set_then_get_returns_password
    [of Map.empty "asc ''svc''" "asc ''alice''" "asc ''p@ss''" "world0 Map.empty"
        "asc ''set''" "asc ''get''" "asc ''svc''" "asc ''alice''" "asc ''p@ss''" "[]" "[]" "[]"
        unbound "world0 Map.empty"]
  by (simp add: batch_defs eval_defs)

subsection \<open>The end of a batch\<close>

text \<open>
  The sequential part of the clipboard handling: when a batch completes, the clipboard
  is emptied and one clearing thread with a delay of one second is started. What the
  thread does later, and when, is outside this model.
\<close>

lemma complete_clears_clipboard:
  "clipboard (complete E w) = [] \<and> timers (complete E w) = timers w @ [1]"
  by (simp add: complete_def pyperclip_copy_def clear_clipboard_after_def update_status_def
        Let_def split: option.split)

subsection \<open>A \<^verbatim>\<open>get\<close> row for an absent entry\<close>

text \<open>
  C10: in batch mode a \<^verbatim>\<open>get\<close> row whose fields pass the checks, for a pair for
  which \<^verbatim>\<open>get_password\<close> returns \<^verbatim>\<open>None\<close>, is a success: the line written and
  reported is \<^verbatim>\<open>SUCCESS: Get password for <system>/<username>: None\<close>, with the flag
  of a success, and no exception leaves the row.
\<close>

theorem get_absent_logs_success_None:
  assumes "f \<noteq> []" "s \<noteq> []" "u \<noteq> []"
    and "length (strip s) \<le> MAX_SYSTEM_LENGTH" "length (strip u) \<le> MAX_USERNAME_LENGTH"
    and "lower (strip f) = asc ''get''"
    and "get_password K (store w) (strip s) (strip u) = (Inr None, st)"
  shows "process_row K (dict_row header (f # s # u # p # extra)) (loc, w) =
     ((loc\<lparr>l_system := Some (strip s), l_username := Some (strip u)\<rparr>,
       w\<lparr>store := st,
         calls := calls w @ [GetPassword (strip s) (strip u)],
         out_file := out_file w @
           [asc ''SUCCESS: Get password for '' @ strip s @ asc ''/'' @ strip u @ asc '': None''],
         reports := reports w @
           [(asc ''SUCCESS: Get password for '' @ strip s @ asc ''/'' @ strip u @ asc '': None'',
             False)]\<rparr>),
      None)"
proof -
  have "check_lengths (lower (strip f)) (strip s) (strip u) (strip p) = None"
    using assms by (simp add: check_lengths_ok asc_distinct)
  moreover have "dispatch K (asc ''get'') (strip s) (strip u) (strip p) w =
     (w\<lparr>store := st, calls := calls w @ [GetPassword (strip s) (strip u)]\<rparr>,
      Inr (asc ''Get password for '' @ strip s @ asc ''/'' @ strip u @ asc '': None''))"
    using assms(7) by (simp add: dispatch_def asc_distinct format_result_def asc_def)
  ultimately show ?thesis
    using assms(1-3,6)
    by (simp add: process_row_def try_row_row update_status_def write_line_def asc_def)
qed

theorem get_absent_logs_success_None_witness:
  "process_row dict_keyring (dict_row header [asc ''GET'', asc '' svc1 '', asc ''alice'', []])
      (\<lparr>l_system = None, l_username = None\<rparr>, world0 Map.empty) =
     ((\<lparr>l_system = Some (asc ''svc1''), l_username = Some (asc ''alice'')\<rparr>,
       \<lparr>store = Map.empty,
        calls = [GetPassword (asc ''svc1'') (asc ''alice'')],
        out_file = [asc ''SUCCESS: Get password for svc1/alice: None''],
        reports = [(asc ''SUCCESS: Get password for svc1/alice: None'', False)],
        clipboard = [], timers = []\<rparr>),
      None)"
  using get_absent_logs_success_None [of "asc ''GET''" "asc '' svc1 ''" "asc ''alice''"
      dict_keyring "world0 Map.empty" Map.empty "[]" "[]" "\<lparr>l_system = None, l_username = None\<rparr>"]
  by (simp add: eval_defs)

end
